theory Spec2Isabelle
  imports Main "HOL-Library.Word" "HOL-Library.Sublist"
begin

section \<open>JavaScript strings\<close>

text \<open>
  A JavaScript string is a sequence of 16-bit code units; \<open>length\<close> counts code units,
  \<open>substring\<close> cuts between them, and the regular expressions of the sources match single
  code units. String literals of the sources are written \<open>js ''...''\<close>.
\<close>

type_synonym jsstring = "16 word list"

definition js :: "string \<Rightarrow> jsstring" where
  "js s = map (\<lambda>c. of_nat (of_char c)) s"

text \<open>
  \<open>String.prototype.trim\<close> removes the ECMAScript WhiteSpace and LineTerminator code
  points from both ends.
\<close>

definition js_whitespace :: "16 word \<Rightarrow> bool" where
  "js_whitespace c =
     (c = 0x09 \<or> c = 0x0A \<or> c = 0x0B \<or> c = 0x0C \<or> c = 0x0D \<or> c = 0x20 \<or> c = 0xA0
      \<or> c = 0x1680 \<or> (0x2000 \<le> c \<and> c \<le> 0x200A) \<or> c = 0x2028 \<or> c = 0x2029
      \<or> c = 0x202F \<or> c = 0x205F \<or> c = 0x3000 \<or> c = 0xFEFF)"

definition js_trim :: "jsstring \<Rightarrow> jsstring" where
  "js_trim s = rev (dropWhile js_whitespace (rev (dropWhile js_whitespace s)))"

text \<open>
  \<open>s.split(sep)\<close> for a one-character separator: the pieces between the separators; the
  result always has at least one piece (\<open>''''.split('','')\<close> is \<open>['''']\<close>).
\<close>

fun js_split :: "16 word \<Rightarrow> jsstring \<Rightarrow> jsstring list" where
  "js_split sep [] = [[]]"
| "js_split sep (c # cs) =
     (if c = sep then [] # js_split sep cs
      else (case js_split sep cs of
              [] \<Rightarrow> [[c]]
            | p # ps \<Rightarrow> (c # p) # ps))"

text \<open>\<open>x || d\<close> on strings: the empty string is falsy.\<close>

definition js_or :: "jsstring \<Rightarrow> jsstring \<Rightarrow> jsstring" where
  "js_or x d = (if x = [] then d else x)"

text \<open>Decimal rendering of a non-negative integer, as a template literal prints it.\<close>

fun digits_of :: "nat \<Rightarrow> 16 word list" where
  "digits_of n = (if n < 10 then [of_nat (48 + n)] else digits_of (n div 10) @ [of_nat (48 + n mod 10)])"

declare digits_of.simps [simp del]

section \<open>ClipboardCapture\<close>

datatype clip_kind = plain | html

text \<open>The fields \<open>text\<close> and \<open>type\<close> of the source are \<open>clip_text\<close> and \<open>clip_type\<close> here.\<close>

record ClipboardContent =
  clip_text :: jsstring
  clip_type :: clip_kind

definition maxLength :: nat where
  "maxLength = 10000"

definition truncation_marker :: jsstring where
  "truncation_marker = js ''... [truncated]''"

text \<open>The character class \<open>[\x00-\x08\x0B-\x0C\x0E-\x1F\x7F]\<close> of \<open>sanitizeText\<close>.\<close>

definition control_char :: "16 word \<Rightarrow> bool" where
  "control_char c = (c \<le> 0x08 \<or> (0x0B \<le> c \<and> c \<le> 0x0C) \<or> (0x0E \<le> c \<and> c \<le> 0x1F) \<or> c = 0x7F)"

definition strip_controls :: "jsstring \<Rightarrow> jsstring" where
  "strip_controls t = filter (\<lambda>c. \<not> control_char c) (filter (\<lambda>c. c \<noteq> 0) t)"

text \<open>
  \<open>ClipboardCapture.sanitizeText\<close>; \<open>None\<close> is the source's \<open>null\<close>. The two
  \<open>replace\<close> calls are \<open>strip_controls\<close>, then \<open>trim\<close>, then the length cap.
\<close>

definition sanitizeText :: "jsstring \<Rightarrow> jsstring option" where
  "sanitizeText t =
     (if t = [] \<or> length (js_trim t) = 0 then None
      else
        let sanitized = js_trim (strip_controls t);
            sanitized = (if length sanitized > maxLength
                         then take maxLength sanitized @ truncation_marker
                         else sanitized)
        in if length sanitized > 0 then Some sanitized else None)"

text \<open>
  \<open>ClipboardCapture.captureClipboard\<close>. The two reads of the Electron clipboard are the
  environment: \<open>None\<close> is a read that throws, which the outer \<open>catch\<close> turns into
  \<open>null\<close>. The plain-text read only happens when the HTML branch did not return.
\<close>

record clipboard_env =
  readHTML :: "jsstring option"
  readText :: "jsstring option"

definition clip_branch :: "jsstring \<Rightarrow> clip_kind \<Rightarrow> ClipboardContent option" where
  "clip_branch t ty =
     (if t \<noteq> [] \<and> length (js_trim t) > 0
      then (case sanitizeText t of
              Some s \<Rightarrow> Some \<lparr>clip_text = s, clip_type = ty\<rparr>
            | None \<Rightarrow> None)
      else None)"

definition captureClipboard :: "clipboard_env \<Rightarrow> ClipboardContent option" where
  "captureClipboard env =
     (case readHTML env of
        None \<Rightarrow> None
      | Some htmlText \<Rightarrow>
          (case clip_branch htmlText html of
             Some c \<Rightarrow> Some c
           | None \<Rightarrow>
               (case readText env of
                  None \<Rightarrow> None
                | Some plainText \<Rightarrow> clip_branch plainText plain)))"

section \<open>BrowserTabCapture\<close>

text \<open>
  The outcome of running an \<open>osascript\<close> command through \<open>execWithTimeout\<close>: the
  standard output, or a rejection (the process failed, or the timer won:
  \<open>Command timeout\<close>) with its message.
\<close>

datatype exec_outcome = Stdout jsstring | ExecFails jsstring

record BrowserTab =
  title :: jsstring
  url :: jsstring
  domain :: jsstring
  browser :: "jsstring option"

text \<open>
  The loop of \<open>parseAppleScriptTabOutput\<close> over \<open>parts\<close>, two entries at a time
  (\<open>i < parts.length - 1\<close>, \<open>i += 2\<close>); a trailing single entry is ignored. The platform's
  URL parser is a parameter: \<open>hostname_of u\<close> is \<open>None\<close> when \<open>new URL(u)\<close> throws
  and the parsed hostname otherwise.
\<close>

fun parse_pairs :: "(jsstring \<Rightarrow> jsstring option) \<Rightarrow> jsstring \<Rightarrow> jsstring list \<Rightarrow> BrowserTab list" where
  "parse_pairs hostname_of b (u # t # rest) =
     (if u \<noteq> [] \<and> t \<noteq> []
      then (case hostname_of u of
              Some h \<Rightarrow> [\<lparr>title = t, url = u, domain = h, browser = Some b\<rparr>]
            | None \<Rightarrow> [])
      else []) @ parse_pairs hostname_of b rest"
| "parse_pairs hostname_of b [u] = []"
| "parse_pairs hostname_of b [] = []"

definition parseAppleScriptTabOutput ::
    "(jsstring \<Rightarrow> jsstring option) \<Rightarrow> jsstring \<Rightarrow> jsstring \<Rightarrow> BrowserTab list" where
  "parseAppleScriptTabOutput hostname_of output b =
     (if output = [] \<or> js_trim output = [] then []
      else parse_pairs hostname_of b (map js_trim (js_split 0x2C output)))"

text \<open>
  The four per-browser queries differ only in the script and the browser name; each
  catches every failure of its command and returns the empty list.
\<close>

definition captureBrowser ::
    "(jsstring \<Rightarrow> jsstring option) \<Rightarrow> jsstring \<Rightarrow> exec_outcome \<Rightarrow> BrowserTab list" where
  "captureBrowser hostname_of b r =
     (case r of
        Stdout out \<Rightarrow> parseAppleScriptTabOutput hostname_of out b
      | ExecFails e \<Rightarrow> [])"

definition captureChromeTabs :: "(jsstring \<Rightarrow> jsstring option) \<Rightarrow> exec_outcome \<Rightarrow> BrowserTab list" where
  "captureChromeTabs hostname_of = captureBrowser hostname_of (js ''Chrome'')"

definition captureSafariTabs :: "(jsstring \<Rightarrow> jsstring option) \<Rightarrow> exec_outcome \<Rightarrow> BrowserTab list" where
  "captureSafariTabs hostname_of = captureBrowser hostname_of (js ''Safari'')"

definition captureFirefoxTabs :: "(jsstring \<Rightarrow> jsstring option) \<Rightarrow> exec_outcome \<Rightarrow> BrowserTab list" where
  "captureFirefoxTabs hostname_of = captureBrowser hostname_of (js ''Firefox'')"

definition captureEdgeTabs :: "(jsstring \<Rightarrow> jsstring option) \<Rightarrow> exec_outcome \<Rightarrow> BrowserTab list" where
  "captureEdgeTabs hostname_of = captureBrowser hostname_of (js ''Edge'')"

text \<open>A settled promise of \<open>Promise.allSettled\<close>.\<close>

datatype 'a settled = Fulfilled 'a | Rejected jsstring

text \<open>The \<open>forEach\<close> of \<open>captureTabs\<close> that collects the fulfilled, non-empty results.\<close>

fun collectTabs :: "BrowserTab list settled list \<Rightarrow> BrowserTab list" where
  "collectTabs [] = []"
| "collectTabs (Fulfilled v # rs) = (if length v > 0 then v else []) @ collectTabs rs"
| "collectTabs (Rejected e # rs) = collectTabs rs"

text \<open>\<open>deduplicateTabs\<close>: the loop with its \<open>seen\<close> set.\<close>

fun dedupe_loop :: "jsstring set \<Rightarrow> BrowserTab list \<Rightarrow> BrowserTab list" where
  "dedupe_loop seen [] = []"
| "dedupe_loop seen (t # ts) =
     (if url t \<notin> seen then t # dedupe_loop (insert (url t) seen) ts
      else dedupe_loop seen ts)"

definition deduplicateTabs :: "BrowserTab list \<Rightarrow> BrowserTab list" where
  "deduplicateTabs tabs = dedupe_loop {} tabs"

text \<open>The part of \<open>captureTabs\<close> after \<open>Promise.allSettled\<close>, on any list of settled results.\<close>

definition aggregateTabs :: "BrowserTab list settled list \<Rightarrow> BrowserTab list" where
  "aggregateTabs results = take 50 (deduplicateTabs (collectTabs results))"

record tabs_env =
  chrome :: exec_outcome
  safari :: exec_outcome
  firefox :: exec_outcome
  edge :: exec_outcome

definition browserResults ::
    "(jsstring \<Rightarrow> jsstring option) \<Rightarrow> tabs_env \<Rightarrow> BrowserTab list settled list" where
  "browserResults hostname_of env =
     [Fulfilled (captureChromeTabs hostname_of (chrome env)),
      Fulfilled (captureSafariTabs hostname_of (safari env)),
      Fulfilled (captureFirefoxTabs hostname_of (firefox env)),
      Fulfilled (captureEdgeTabs hostname_of (edge env))]"

definition captureTabs :: "(jsstring \<Rightarrow> jsstring option) \<Rightarrow> tabs_env \<Rightarrow> BrowserTab list" where
  "captureTabs hostname_of env = aggregateTabs (browserResults hostname_of env)"

section \<open>ActiveWindowCapture\<close>

text \<open>
  The field \<open>title\<close> of \<open>ActiveWindowInfo\<close> is \<open>aw_title\<close> here; an optional field is an
  \<open>option\<close>.
\<close>

record ActiveWindowInfo =
  app :: jsstring
  aw_title :: jsstring
  bundleId :: "jsstring option"

record FrontmostApp =
  name :: jsstring
  app_bundleId :: "jsstring option"

definition getFrontmostApp :: "exec_outcome \<Rightarrow> FrontmostApp option" where
  "getFrontmostApp r =
     (case r of
        ExecFails e \<Rightarrow> None
      | Stdout out \<Rightarrow>
          (case js_split 0x7C (js_trim out) of
             [] \<Rightarrow> Some \<lparr>name = js ''Unknown'', app_bundleId = None\<rparr>
           | [p0] \<Rightarrow> Some \<lparr>name = js_or p0 (js ''Unknown''), app_bundleId = None\<rparr>
           | p0 # p1 # ps \<Rightarrow>
               Some \<lparr>name = js_or p0 (js ''Unknown''),
                     app_bundleId = (if p1 = [] then None else Some p1)\<rparr>))"

definition getWindowTitle :: "exec_outcome \<Rightarrow> jsstring option" where
  "getWindowTitle r =
     (case r of
        ExecFails e \<Rightarrow> None
      | Stdout out \<Rightarrow> (if js_trim out = [] then None else Some (js_trim out)))"

record window_env =
  frontmostApp_query :: exec_outcome
  windowTitle_query :: exec_outcome

definition captureActiveWindow :: "window_env \<Rightarrow> ActiveWindowInfo option" where
  "captureActiveWindow env =
     (let appInfo = getFrontmostApp (frontmostApp_query env);
          wt = getWindowTitle (windowTitle_query env)
      in case appInfo of
           None \<Rightarrow> None
         | Some a \<Rightarrow>
             Some \<lparr>app = name a,
                   aw_title = (case wt of None \<Rightarrow> js ''Unknown'' | Some t \<Rightarrow> js_or t (js ''Unknown'')),
                   bundleId = app_bundleId a\<rparr>)"

section \<open>WebhookService\<close>

definition maxRetries :: nat where
  "maxRetries = 3"

definition retryDelayMs :: nat where
  "retryDelayMs = 1000"

text \<open>
  The fields \<open>success\<close> and \<open>error\<close> of \<open>WebhookResponse\<close> are \<open>wr_success\<close> and
  \<open>wr_error\<close> here.
\<close>

record WebhookResponse =
  wr_success :: bool
  wr_error :: "jsstring option"
  statusCode :: "nat option"

text \<open>
  The outcome of one \<open>axios.post\<close>: the promise resolves with a response status, or it
  rejects with an error. Of the error the code reads its \<open>message\<close> and, when it is an
  \<open>AxiosError\<close> that carries a response, that response's status (\<open>None\<close> for a timeout,
  a network error, or an error that is not an \<open>AxiosError\<close>).
\<close>

datatype post_outcome = PostOk nat | PostFails jsstring "nat option"

text \<open>What \<open>send\<close> does to the outside, in order: a POST (with its attempt number) or a sleep (in ms).\<close>

datatype send_event = Post nat | Sleep nat

definition client_error :: "nat option \<Rightarrow> bool" where
  "client_error resp = (case resp of Some st \<Rightarrow> 400 \<le> st \<and> st < 500 | None \<Rightarrow> False)"

definition client_error_response :: "nat option \<Rightarrow> WebhookResponse" where
  "client_error_response resp =
     \<lparr>wr_success = False,
      wr_error = Some (js ''Client error: '' @ (case resp of Some st \<Rightarrow> digits_of st | None \<Rightarrow> [])),
      statusCode = resp\<rparr>"

text \<open>
  The \<open>for\<close> loop of \<open>send\<close>, from attempt \<open>attempt\<close> on. \<open>net k\<close> is the outcome of the
  \<open>k\<close>-th POST; \<open>lastError\<close> holds the message of the last error caught (\<open>None\<close> is
  \<open>null\<close>). After the loop, \<open>lastError?.message || 'Unknown error'\<close>.
\<close>

function send_loop ::
    "(nat \<Rightarrow> post_outcome) \<Rightarrow> nat \<Rightarrow> jsstring option \<Rightarrow> send_event list
       \<Rightarrow> WebhookResponse \<times> send_event list" where
  "send_loop net attempt lastError tr =
     (if attempt \<le> maxRetries then
        (case net attempt of
           PostOk st \<Rightarrow>
             (\<lparr>wr_success = True, wr_error = None, statusCode = Some st\<rparr>, tr @ [Post attempt])
         | PostFails msg resp \<Rightarrow>
             if client_error resp then (client_error_response resp, tr @ [Post attempt])
             else if attempt < maxRetries
             then send_loop net (attempt + 1) (Some msg)
                    (tr @ [Post attempt, Sleep (retryDelayMs * 2 ^ (attempt - 1))])
             else send_loop net (attempt + 1) (Some msg) (tr @ [Post attempt]))
      else
        (\<lparr>wr_success = False,
          wr_error = Some (case lastError of
                             None \<Rightarrow> js ''Unknown error''
                           | Some m \<Rightarrow> js_or m (js ''Unknown error'')),
          statusCode = None\<rparr>, tr))"
  by pat_completeness auto
termination
  by (relation "measure (\<lambda>(net, attempt, lastError, tr). maxRetries + 1 - attempt)") auto

declare send_loop.simps [simp del]

text \<open>
  \<open>WebhookService.send\<close>. The payload (built by \<open>sendToWebhook\<close> from the context) is
  posted as it is and decides nothing, so the model takes the outcomes of the POSTs only.
\<close>

definition send :: "(nat \<Rightarrow> post_outcome) \<Rightarrow> WebhookResponse \<times> send_event list" where
  "send net = send_loop net 1 None []"

text \<open>
  Notions for stating the retry policy: the POSTs among the events; an outcome after which
  \<open>send\<close> goes on (a rejection that is not a client error); and the events of \<open>k\<close>
  attempts of which the first \<open>k - 1\<close> were each followed by their backoff sleep.
\<close>

fun is_post :: "send_event \<Rightarrow> bool" where
  "is_post (Post k) = True"
| "is_post (Sleep ms) = False"

definition retryable :: "post_outcome \<Rightarrow> bool" where
  "retryable r = (case r of PostOk st \<Rightarrow> False | PostFails msg resp \<Rightarrow> \<not> client_error resp)"

definition backoff_trace :: "nat \<Rightarrow> send_event list" where
  "backoff_trace k =
     concat (map (\<lambda>j. [Post j, Sleep (retryDelayMs * 2 ^ (j - 1))]) [1..<k]) @ [Post k]"

section \<open>DatabaseHelper\<close>

text \<open>
  A row of the table \<open>captures\<close>. The column \<open>id\<close> is \<open>row_id\<close> here; the two SQLite
  booleans are numbers, 0 or 1, as in the source.
\<close>

record CaptureRecord =
  row_id :: jsstring
  timestamp :: int
  app_name :: jsstring
  window_title :: jsstring
  tabs_count :: nat
  has_clipboard :: nat
  screenshot_path :: jsstring
  json_path :: jsstring
  webhook_sent :: nat
  webhook_sent_at :: "int option"

record CaptureInsertData =
  ins_id :: jsstring
  ins_timestamp :: int
  appName :: jsstring
  windowTitle :: jsstring
  tabsCount :: nat
  hasClipboard :: bool
  screenshotPath :: jsstring
  jsonPath :: jsstring

text \<open>
  The table is the list of its rows in insertion order. A statement of the driver either
  runs or throws (a locked or full database, an I/O error); which statements throw is the
  environment, a function from the statement to the message of the error it throws.
  A thrown error is \<open>Inl\<close> of its message.
\<close>

datatype db_stmt =
    InsertRow jsstring
  | SelectPage
  | SelectById jsstring
  | UpdateStatus jsstring
  | DeleteById jsstring
  | Vacuum

type_synonym db_faults = "db_stmt \<Rightarrow> jsstring option"

definition new_row :: "CaptureInsertData \<Rightarrow> CaptureRecord" where
  "new_row d =
     \<lparr>row_id = ins_id d, timestamp = ins_timestamp d, app_name = appName d,
      window_title = windowTitle d, tabs_count = tabsCount d,
      has_clipboard = (if hasClipboard d then 1 else 0),
      screenshot_path = screenshotPath d, json_path = jsonPath d,
      webhook_sent = 0, webhook_sent_at = None\<rparr>"

text \<open>\<open>insertCapture\<close>: the \<open>INSERT\<close> violates the primary key when the id is already there.\<close>

definition insertCapture ::
    "db_faults \<Rightarrow> CaptureRecord list \<Rightarrow> CaptureInsertData \<Rightarrow> jsstring + CaptureRecord list" where
  "insertCapture F tbl d =
     (case F (InsertRow (ins_id d)) of
        Some m \<Rightarrow> Inl m
      | None \<Rightarrow>
          if ins_id d \<in> set (map row_id tbl)
          then Inl (js ''UNIQUE constraint failed: captures.id'')
          else Inr (tbl @ [new_row d]))"


definition getCapture ::
    "db_faults \<Rightarrow> CaptureRecord list \<Rightarrow> jsstring \<Rightarrow> jsstring + CaptureRecord option" where
  "getCapture F tbl i =
     (case F (SelectById i) of
        Some m \<Rightarrow> Inl m
      | None \<Rightarrow> Inr (find (\<lambda>r. row_id r = i) tbl))"

text \<open>\<open>updateWebhookStatus(id, sent)\<close>; \<open>now\<close> is \<open>Date.now()\<close>.\<close>

definition updateWebhookStatus ::
    "db_faults \<Rightarrow> CaptureRecord list \<Rightarrow> jsstring \<Rightarrow> bool \<Rightarrow> int \<Rightarrow> jsstring + CaptureRecord list" where
  "updateWebhookStatus F tbl i sent now =
     (case F (UpdateStatus i) of
        Some m \<Rightarrow> Inl m
      | None \<Rightarrow>
          Inr (map (\<lambda>r. if row_id r = i
                         then r\<lparr>webhook_sent := (if sent then 1 else 0),
                                webhook_sent_at := (if sent then Some now else None)\<rparr>
                         else r) tbl))"

text \<open>\<open>DatabaseHelper.deleteCapture\<close>.\<close>

definition db_deleteCapture ::
    "db_faults \<Rightarrow> CaptureRecord list \<Rightarrow> jsstring \<Rightarrow> jsstring + CaptureRecord list" where
  "db_deleteCapture F tbl i =
     (case F (DeleteById i) of
        Some m \<Rightarrow> Inl m
      | None \<Rightarrow> Inr (filter (\<lambda>r. row_id r \<noteq> i) tbl))"

section \<open>ContextAggregator\<close>

datatype capture_method = Hotkey | Manual

datatype processing_status = Pending | Processing | Complete | Failed

text \<open>
  \<open>CapturedContext\<close>. Its fields \<open>id\<close> and \<open>timestamp\<close> are \<open>ctx_id\<close> and
  \<open>ctx_timestamp\<close> (milliseconds), the fields of its \<open>activeWindow\<close> are prefixed with
  \<open>cw_\<close>, and the status \<open>'error'\<close> is \<open>Failed\<close>.
\<close>

record ActiveWindow =
  cw_app :: jsstring
  cw_title :: jsstring
  cw_bundleId :: "jsstring option"
  screenshot :: "jsstring option"

record Metadata =
  os :: jsstring
  captureMethod :: capture_method
  processingStatus :: processing_status

record CapturedContext =
  ctx_id :: jsstring
  ctx_timestamp :: int
  activeWindow :: ActiveWindow
  browserTabs :: "BrowserTab list"
  clipboard :: "ClipboardContent option"
  metadata :: Metadata

record CaptureResult =
  success :: bool
  captureId :: "jsstring option"
  error :: "jsstring option"

text \<open>The result \<open>{success, error?}\<close> of \<open>deleteCapture\<close> and \<open>retryWebhook\<close>.\<close>

record OpResult =
  op_success :: bool
  op_error :: "jsstring option"

text \<open>
  What a file holds: the JSON document that \<open>JSON.stringify\<close> wrote for a context (and
  that \<open>JSON.parse\<close> reads back), a screenshot (by its base64 text), or anything else,
  which does not parse.
\<close>

datatype file_content = JsonDoc CapturedContext | Png jsstring | Unparsable

text \<open>
  The state the aggregator works on: the files, the table \<open>captures\<close> of the database,
  and the aggregator's own fields.
\<close>

record world =
  files :: "jsstring \<Rightarrow> file_content option"
  captures :: "CaptureRecord list"
  capturesDir :: jsstring
  screenshotsDir :: jsstring
  latestCapture :: "CapturedContext option"

definition path_join :: "jsstring \<Rightarrow> jsstring \<Rightarrow> jsstring" where
  "path_join dir file_name = dir @ js ''/'' @ file_name"

definition json_file :: "world \<Rightarrow> jsstring \<Rightarrow> jsstring" where
  "json_file w i = path_join (capturesDir w) (i @ js ''.json'')"

definition png_file :: "world \<Rightarrow> jsstring \<Rightarrow> jsstring" where
  "png_file w i = path_join (screenshotsDir w) (i @ js ''.png'')"

text \<open>A hook of the host either returns or throws.\<close>

datatype hook = Returns | Throws jsstring

text \<open>
  The screen grab: \<open>screenshot\<close> throws; or it writes the image and \<open>readFile\<close> reads it
  back (\<open>Grabbed\<close>, with the base64 text of the image); or it writes the image and
  \<open>readFile\<close> throws.
\<close>

datatype grab_outcome = GrabFails jsstring | Grabbed jsstring | GrabbedUnreadable jsstring jsstring

text \<open>
  Everything one call of \<open>captureContext\<close> takes from outside: the fresh uuid, the clock,
  the platform name, the URL parser, the outcomes of the adapters' commands and of the
  clipboard reads, the two optional hooks, the screen grab, whether \<open>writeFile\<close> rejects
  (\<open>Some\<close> message), and the statements of the database that throw.
\<close>

record capture_env =
  uuid :: jsstring
  clock :: int
  platform :: jsstring
  url_parser :: "jsstring \<Rightarrow> jsstring option"
  window_queries :: window_env
  tab_queries :: tabs_env
  clipboard_reads :: clipboard_env
  hideWindow :: "hook option"
  showWindow :: "hook option"
  grab :: grab_outcome
  writeFile :: "jsstring option"
  faults :: db_faults

text \<open>What a call does, in order.\<close>

datatype event =
    HideWindow
  | Settle nat
  | ScreenGrab
  | ShowWindow
  | WriteBlob
  | InsertIndexRow
  | StartDelivery

text \<open>
  Step 4 of \<open>captureContext\<close>, the \<open>try\<close>/\<open>catch\<close>/\<open>finally\<close> around the screenshot.
  The \<open>try\<close> part gives the base64 text, the path, the files and the events; anything
  thrown in it is caught and logged.
\<close>

record shot =
  shot_base64 :: "jsstring option"
  shot_path :: jsstring
  shot_files :: "jsstring \<Rightarrow> file_content option"
  shot_events :: "event list"

definition try_screenshot :: "world \<Rightarrow> capture_env \<Rightarrow> shot" where
  "try_screenshot w env =
     (case hideWindow env of
        Some (Throws m) \<Rightarrow>
          \<lparr>shot_base64 = None, shot_path = [], shot_files = files w, shot_events = [HideWindow]\<rparr>
      | h \<Rightarrow>
          (let evs = (case h of Some x \<Rightarrow> [HideWindow] | None \<Rightarrow> []) @ [Settle 100, ScreenGrab];
               p = png_file w (uuid env)
           in case grab env of
                GrabFails m \<Rightarrow>
                  \<lparr>shot_base64 = None, shot_path = p, shot_files = files w, shot_events = evs\<rparr>
              | Grabbed b \<Rightarrow>
                  \<lparr>shot_base64 = Some b, shot_path = p,
                   shot_files = (files w)(p \<mapsto> Png b), shot_events = evs\<rparr>
              | GrabbedUnreadable b m \<Rightarrow>
                  \<lparr>shot_base64 = None, shot_path = p,
                   shot_files = (files w)(p \<mapsto> Png b), shot_events = evs\<rparr>))"

text \<open>The \<open>finally\<close> part: the events, and the error it throws when the show hook throws.\<close>

definition finally_show :: "capture_env \<Rightarrow> event list \<times> jsstring option" where
  "finally_show env =
     (case showWindow env of
        None \<Rightarrow> ([], None)
      | Some Returns \<Rightarrow> ([ShowWindow], None)
      | Some (Throws m) \<Rightarrow> ([ShowWindow], Some m))"

definition build_context ::
    "capture_method \<Rightarrow> capture_env \<Rightarrow> jsstring option \<Rightarrow> CapturedContext" where
  "build_context how env b64 =
     (let aw = captureActiveWindow (window_queries env) in
      \<lparr>ctx_id = uuid env,
       ctx_timestamp = clock env,
       activeWindow =
         \<lparr>cw_app = (case aw of None \<Rightarrow> js ''Unknown'' | Some a \<Rightarrow> js_or (app a) (js ''Unknown'')),
          cw_title = (case aw of None \<Rightarrow> js ''Unknown'' | Some a \<Rightarrow> js_or (aw_title a) (js ''Unknown'')),
          cw_bundleId = (case aw of None \<Rightarrow> None | Some a \<Rightarrow> bundleId a),
          screenshot = b64\<rparr>,
       browserTabs = captureTabs (url_parser env) (tab_queries env),
       clipboard = captureClipboard (clipboard_reads env),
       metadata = \<lparr>os = platform env, captureMethod = how, processingStatus = Pending\<rparr>\<rparr>)"

definition insert_data :: "world \<Rightarrow> CapturedContext \<Rightarrow> jsstring \<Rightarrow> CaptureInsertData" where
  "insert_data w c sp =
     \<lparr>ins_id = ctx_id c,
      ins_timestamp = ctx_timestamp c,
      appName = cw_app (activeWindow c),
      windowTitle = cw_title (activeWindow c),
      tabsCount = length (browserTabs c),
      hasClipboard = (clipboard c \<noteq> None),
      screenshotPath = sp,
      jsonPath = json_file w (ctx_id c)\<rparr>"

text \<open>
  The outcome of a call: the result returned, the state afterwards, the events in order,
  and the delivery that was started and not awaited (its capture id and context), which
  completes later.
\<close>

record capture_outcome =
  returned :: CaptureResult
  after :: world
  events :: "event list"
  started_delivery :: "(jsstring \<times> CapturedContext) option"

definition capture_failed :: "jsstring \<Rightarrow> world \<Rightarrow> event list \<Rightarrow> capture_outcome" where
  "capture_failed m w evs =
     \<lparr>returned = \<lparr>success = False, captureId = None, error = Some m\<rparr>,
      after = w, events = evs, started_delivery = None\<rparr>"

text \<open>
  \<open>captureContext\<close>. The adapters never reject, so the first thing that can reach the
  outer \<open>catch\<close> is a show hook that throws; then \<open>writeFile\<close>; then \<open>insertCapture\<close>.
\<close>

definition captureContext :: "world \<Rightarrow> capture_method \<Rightarrow> capture_env \<Rightarrow> capture_outcome" where
  "captureContext w how env =
     (let s = try_screenshot w env;
          (show_evs, thrown) = finally_show env;
          evs1 = shot_events s @ show_evs;
          w1 = w\<lparr>files := shot_files s\<rparr>
      in case thrown of
           Some m \<Rightarrow> capture_failed m w1 evs1
         | None \<Rightarrow>
             (let c = build_context how env (shot_base64 s);
                  w2 = w1\<lparr>latestCapture := Some c\<rparr>;
                  evs2 = evs1 @ [WriteBlob]
              in case writeFile env of
                   Some m \<Rightarrow> capture_failed m w2 evs2
                 | None \<Rightarrow>
                     (let w3 = w2\<lparr>files := (files w2)(json_file w (uuid env) \<mapsto> JsonDoc c)\<rparr>;
                          evs3 = evs2 @ [InsertIndexRow]
                      in case insertCapture (faults env) (captures w3) (insert_data w c (shot_path s)) of
                           Inl m \<Rightarrow> capture_failed m w3 evs3
                         | Inr tbl \<Rightarrow>
                             \<lparr>returned = \<lparr>success = True, captureId = Some (uuid env), error = None\<rparr>,
                              after = w3\<lparr>captures := tbl\<rparr>,
                              events = evs3 @ [StartDelivery],
                              started_delivery = Some (uuid env, c)\<rparr>)))"

definition getLatestCapture :: "world \<Rightarrow> CapturedContext option" where
  "getLatestCapture w = latestCapture w"

definition loadCapture :: "world \<Rightarrow> jsstring \<Rightarrow> CapturedContext option" where
  "loadCapture w i =
     (case files w (json_file w i) of
        Some (JsonDoc c) \<Rightarrow> Some c
      | _ \<Rightarrow> None)"

text \<open>
  What a delivery takes from outside: the outcomes of the POSTs, the clock at the status
  update, and the statements of the database that throw.
\<close>

record delivery_env =
  posts :: "nat \<Rightarrow> post_outcome"
  sent_clock :: int
  update_faults :: db_faults

text \<open>
  \<open>sendToWebhook\<close>: returns nothing (\<open>Inr ()\<close>) or throws what \<open>updateWebhookStatus\<close>
  throws; the result of \<open>send\<close> is written to the index and logged.
\<close>

definition sendToWebhook ::
    "world \<Rightarrow> jsstring \<Rightarrow> CapturedContext \<Rightarrow> delivery_env \<Rightarrow> (jsstring + unit) \<times> world" where
  "sendToWebhook w i c env =
     (let res = fst (send (posts env))
      in case updateWebhookStatus (update_faults env) (captures w) i (wr_success res) (sent_clock env) of
           Inl m \<Rightarrow> (Inl m, w)
         | Inr tbl \<Rightarrow> (Inr (), w\<lparr>captures := tbl\<rparr>))"

definition retryWebhook :: "world \<Rightarrow> jsstring \<Rightarrow> delivery_env \<Rightarrow> OpResult \<times> world" where
  "retryWebhook w i env =
     (case loadCapture w i of
        None \<Rightarrow> (\<lparr>op_success = False, op_error = Some (js ''Capture not found'')\<rparr>, w)
      | Some c \<Rightarrow>
          (case sendToWebhook w i c env of
             (Inl m, w') \<Rightarrow> (\<lparr>op_success = False, op_error = Some m\<rparr>, w')
           | (Inr u, w') \<Rightarrow> (\<lparr>op_success = True, op_error = None\<rparr>, w')))"

text \<open>
  \<open>ContextAggregator.deleteCapture\<close>. A failed \<open>unlink\<close> is caught and logged; here
  \<open>unlink\<close> removes the file when it is there.
\<close>

definition unlink :: "(jsstring \<Rightarrow> file_content option) \<Rightarrow> jsstring \<Rightarrow> (jsstring \<Rightarrow> file_content option)" where
  "unlink fs p = fs(p := None)"

definition deleteCapture :: "world \<Rightarrow> jsstring \<Rightarrow> db_faults \<Rightarrow> OpResult \<times> world" where
  "deleteCapture w i F =
     (case getCapture F (captures w) i of
        Inl m \<Rightarrow> (\<lparr>op_success = False, op_error = Some m\<rparr>, w)
      | Inr rec \<Rightarrow>
          (let fs1 = unlink (files w) (json_file w i);
               fs2 = (case rec of
                        Some r \<Rightarrow> if screenshot_path r \<noteq> [] then unlink fs1 (screenshot_path r) else fs1
                      | None \<Rightarrow> fs1);
               w1 = w\<lparr>files := fs2\<rparr>
           in case db_deleteCapture F (captures w) i of
                Inl m \<Rightarrow> (\<lparr>op_success = False, op_error = Some m\<rparr>, w1)
              | Inr tbl \<Rightarrow> (\<lparr>op_success = True, op_error = None\<rparr>, w1\<lparr>captures := tbl\<rparr>)))"

text \<open>The loop of \<open>cleanupOldCaptures\<close> over the rows it fetched, with its counter.\<close>

fun cleanup_loop ::
    "db_faults \<Rightarrow> int \<Rightarrow> CaptureRecord list \<Rightarrow> world \<Rightarrow> nat \<Rightarrow> world \<times> nat" where
  "cleanup_loop F cutoffTime [] w deletedCount = (w, deletedCount)"
| "cleanup_loop F cutoffTime (c # cs) w deletedCount =
     (if timestamp c < cutoffTime
      then cleanup_loop F cutoffTime cs (snd (deleteCapture w (row_id c) F)) (deletedCount + 1)
      else cleanup_loop F cutoffTime cs w deletedCount)"



text \<open>
  Sequences of operations on one aggregator: a call of \<open>captureContext\<close>; the completion
  of a delivery that \<open>captureContext\<close> started (\<open>sendToWebhook\<close> with a capture id and a
  context); a call of \<open>retryWebhook\<close>.
\<close>

datatype operation =
    Capture capture_method capture_env
  | Deliver jsstring CapturedContext delivery_env
  | Retry jsstring delivery_env



text \<open>The \<open>webhook_sent\<close> flag of the row of an id, when there is one.\<close>

definition sent_flag :: "world \<Rightarrow> jsstring \<Rightarrow> nat option" where
  "sent_flag w i = map_option webhook_sent (find (\<lambda>r. row_id r = i) (captures w))"

text \<open>
  Notions for stating what a call of \<open>captureContext\<close> leaves behind: the context it
  assembles and the index row it inserts; that the uuid is fresh (no row, no blob and no
  screenshot under it yet); that the blob, or the row, of an id exists.
\<close>

definition assembled :: "world \<Rightarrow> capture_method \<Rightarrow> capture_env \<Rightarrow> CapturedContext" where
  "assembled w how env = build_context how env (shot_base64 (try_screenshot w env))"

definition index_row :: "world \<Rightarrow> capture_method \<Rightarrow> capture_env \<Rightarrow> CaptureRecord" where
  "index_row w how env =
     new_row (insert_data w (assembled w how env) (shot_path (try_screenshot w env)))"

definition capture_is_fresh :: "world \<Rightarrow> capture_env \<Rightarrow> bool" where
  "capture_is_fresh w env =
     (uuid env \<notin> set (map row_id (captures w))
      \<and> files w (json_file w (uuid env)) = None
      \<and> files w (png_file w (uuid env)) = None)"

definition blob_exists :: "world \<Rightarrow> jsstring \<Rightarrow> bool" where
  "blob_exists w i = (files w (json_file w i) \<noteq> None)"

definition row_exists :: "world \<Rightarrow> jsstring \<Rightarrow> bool" where
  "row_exists w i = (i \<in> set (map row_id (captures w)))"

text \<open>
  The reading of a capture call as all or nothing: after the call both the blob and the
  row exist and the call returned success with the id, or neither exists, the call
  returned failure and the state is as it was before.
\<close>

definition all_or_nothing :: "world \<Rightarrow> capture_method \<Rightarrow> capture_env \<Rightarrow> bool" where
  "all_or_nothing w how env =
     (let out = captureContext w how env; i = uuid env
      in (success (returned out) \<and> captureId (returned out) = Some i
            \<and> blob_exists (after out) i \<and> row_exists (after out) i)
         \<or> (\<not> success (returned out) \<and> \<not> blob_exists (after out) i
              \<and> \<not> row_exists (after out) i \<and> after out = w))"




section \<open>Example inputs\<close>





text \<open>A URL parser that knows one URL, and command outputs with one entry that does not parse.\<close>

definition toy_parser :: "jsstring \<Rightarrow> jsstring option" where
  "toy_parser u = (if u = js ''https://a.example/x'' then Some (js ''a.example'') else None)"

definition toy_tabs :: tabs_env where
  "toy_tabs =
     \<lparr>chrome = Stdout (js ''https://a.example/x, Home, not a url, Broken''),
      safari = ExecFails (js ''Command timeout''),
      firefox = Stdout [],
      edge = Stdout (js ''  '')\<rparr>"

text \<open>The application query times out while the title query answers; and the converse.\<close>

definition queries_app_fails :: window_env where
  "queries_app_fails =
     \<lparr>frontmostApp_query = ExecFails (js ''Command timeout''),
      windowTitle_query = Stdout (js ''Inbox'')\<rparr>"

definition queries_title_fails :: window_env where
  "queries_title_fails =
     \<lparr>frontmostApp_query = Stdout (js ''Mail|com.apple.mail''),
      windowTitle_query = ExecFails (js ''Command timeout'')\<rparr>"

text \<open>
  A collector that answers 500 to every POST; one that answers 404; and a network that
  fails every POST with an error whose message is empty.
\<close>

definition always_500 :: "nat \<Rightarrow> post_outcome" where
  "always_500 k = PostFails (js ''Request failed with status code 500'') (Some 500)"

definition not_found_404 :: "nat \<Rightarrow> post_outcome" where
  "not_found_404 k = PostFails (js ''Request failed with status code 404'') (Some 404)"

definition nameless_failure :: "nat \<Rightarrow> post_outcome" where
  "nameless_failure k = PostFails [] None"

text \<open>
  An empty store, and a capture call on it whose hooks return and whose grab throws; the
  same call with a database whose statements throw, and with a blob write that rejects.
\<close>

definition empty_world :: world where
  "empty_world =
     \<lparr>files = (\<lambda>p. None), captures = [],
      capturesDir = js ''/data/captures'', screenshotsDir = js ''/data/capture_screenshots'',
      latestCapture = None\<rparr>"

definition base_env :: capture_env where
  "base_env =
     \<lparr>uuid = js ''c1'', clock = 1700000000000, platform = js ''darwin'',
      url_parser = toy_parser, window_queries = queries_title_fails, tab_queries = toy_tabs,
      clipboard_reads = \<lparr>readHTML = Some [], readText = Some (js ''hi'')\<rparr>,
      hideWindow = Some Returns, showWindow = Some Returns,
      grab = GrabFails (js ''no display''),
      writeFile = None, faults = (\<lambda>s. None)\<rparr>"

definition index_fails_env :: capture_env where
  "index_fails_env = base_env\<lparr>faults := (\<lambda>s. Some (js ''database is locked''))\<rparr>"

definition blob_fails_env :: capture_env where
  "blob_fails_env = base_env\<lparr>writeFile := Some (js ''ENOSPC: no space left on device'')\<rparr>"







section \<open>Facts about trimming and sanitizing\<close>

lemma all_dropWhile_iff: "(\<forall>x\<in>set (dropWhile P xs). P x) \<longleftrightarrow> (\<forall>x\<in>set xs. P x)"
  by (induction xs) auto

lemma js_trim_Nil_iff: "js_trim s = [] \<longleftrightarrow> (\<forall>c\<in>set s. js_whitespace c)"
  by (simp add: js_trim_def all_dropWhile_iff)

lemma strip_controls_subset: "set (strip_controls t) \<subseteq> set t"
  by (auto simp: strip_controls_def)

lemma length_truncation_marker: "length truncation_marker = 15"
  by (simp add: truncation_marker_def js_def)

lemma sanitizeText_capped:
  assumes "length (js_trim (strip_controls t)) > maxLength"
  shows "sanitizeText t = Some (take maxLength (js_trim (strip_controls t)) @ truncation_marker)"
proof -
  from assms have ne: "js_trim (strip_controls t) \<noteq> []" by auto
  then obtain c where c: "c \<in> set (strip_controls t)" "\<not> js_whitespace c"
    by (auto simp: js_trim_Nil_iff)
  with strip_controls_subset have "c \<in> set t" by blast
  with c have "t \<noteq> []" "js_trim t \<noteq> []"
    by (auto simp: js_trim_Nil_iff)
  moreover have "truncation_marker \<noteq> []"
    using length_truncation_marker by auto
  ultimately show ?thesis
    using assms by (simp add: sanitizeText_def Let_def)
qed

text \<open>
  C7, as the code has it. The cap is applied to the text that remains after the control
  characters are stripped and the ends are trimmed: whenever that text is longer than
  the 10000-character cap, the result is its first 10000 code units followed by the
  truncation marker, so it ends with the marker and its length is the cap plus the
  marker's length (15).
\<close>

theorem sanitizeText_truncates:
  "length (js_trim (strip_controls t)) > maxLength \<Longrightarrow>
     (\<exists>out. sanitizeText t = Some out
        \<and> suffix truncation_marker out
        \<and> length out = maxLength + length truncation_marker
        \<and> take maxLength out = take maxLength (js_trim (strip_controls t)))"
  using sanitizeText_capped [of t] by (auto simp: suffix_def)

text \<open>
  Counterexample to C7 as stated. The input of 10000 letters \<open>a\<close> followed by one space
  is longer than the cap, but trimming brings it down to the cap, so nothing is
  truncated and no marker is appended.
\<close>

theorem sanitizeText_long_input_counterexample:
  "\<not> (\<forall>t. length t > maxLength \<longrightarrow>
        (\<exists>out. sanitizeText t = Some out \<and> suffix truncation_marker out
           \<and> length out = maxLength + length truncation_marker))"
proof
  assume "\<forall>t. length t > maxLength \<longrightarrow>
        (\<exists>out. sanitizeText t = Some out \<and> suffix truncation_marker out
           \<and> length out = maxLength + length truncation_marker)"
  then have "length (replicate 10000 0x61 @ [0x20 :: 16 word]) > maxLength \<longrightarrow>
        (\<exists>out. sanitizeText (replicate 10000 0x61 @ [0x20]) = Some out
           \<and> suffix truncation_marker out
           \<and> length out = maxLength + length truncation_marker)"
    by blast
  moreover have "sanitizeText (replicate 10000 0x61 @ [0x20]) = Some (replicate 10000 0x61)"
    by (simp add: sanitizeText_def js_trim_def strip_controls_def js_whitespace_def
        control_char_def maxLength_def Let_def)
  ultimately show False
    by (simp add: maxLength_def length_truncation_marker)
qed

text \<open>
  Witness for \<open>sanitizeText_truncates\<close>: 10001 letters \<open>a\<close> are cut to 10000 and the
  marker is appended, 10015 code units in all.
\<close>

theorem sanitizeText_truncates_witness:
  "\<exists>out. sanitizeText (replicate 10001 0x61) = Some out
      \<and> suffix truncation_marker out
      \<and> length out = 10015
      \<and> take 10000 out = replicate 10000 0x61"
  using sanitizeText_truncates [of "replicate 10001 0x61"]
  by (simp add: js_trim_def strip_controls_def js_whitespace_def control_char_def
      maxLength_def length_truncation_marker)

section \<open>Browser tabs: deduplication and URLs\<close>




lemma dedupe_loop_subset: "t \<in> set (dedupe_loop seen ts) \<Longrightarrow> t \<in> set ts"
  by (induction ts arbitrary: seen) (auto split: if_splits)






lemma parse_pairs_host:
  "x \<in> set (parse_pairs h b parts) \<Longrightarrow> h (url x) = Some (domain x)"
proof (induction h b parts rule: parse_pairs.induct)
  case (1 hostname_of b u t rest)
  show ?case
  proof (cases "u \<noteq> [] \<and> t \<noteq> []")
    case True
    with 1 show ?thesis by (cases "hostname_of u") auto
  next
    case False
    with 1 show ?thesis by auto
  qed
qed simp_all

lemma parseAppleScriptTabOutput_host:
  "t \<in> set (parseAppleScriptTabOutput h out b) \<Longrightarrow> h (url t) = Some (domain t)"
  unfolding parseAppleScriptTabOutput_def
  by (cases "out = [] \<or> js_trim out = []") (auto dest: parse_pairs_host)

lemma captureBrowser_host:
  "t \<in> set (captureBrowser h b r) \<Longrightarrow> h (url t) = Some (domain t)"
  by (cases r) (auto simp: captureBrowser_def dest: parseAppleScriptTabOutput_host)

lemma collect_browserResults:
  "t \<in> set (collectTabs (browserResults h env)) \<Longrightarrow> h (url t) = Some (domain t)"
  by (auto simp: browserResults_def captureChromeTabs_def captureSafariTabs_def
      captureFirefoxTabs_def captureEdgeTabs_def split: if_splits dest: captureBrowser_host)

lemma aggregateTabs_subset: "t \<in> set (aggregateTabs rs) \<Longrightarrow> t \<in> set (collectTabs rs)"
  by (auto simp: aggregateTabs_def deduplicateTabs_def dest!: in_set_takeD dest: dedupe_loop_subset)

text \<open>
  C10. For every URL parser and all command outcomes: each tab that \<open>captureTabs\<close>
  returns has a url that parses, and its domain is the hostname the parser gave; no url
  that fails to parse appears in the result; in the parsing loop an entry whose url
  fails to parse is skipped and the loop goes on with the rest; and a command that
  fails gives the empty list, not an error.
\<close>

theorem captureTabs_urls_parse:
  "(\<forall>t\<in>set (captureTabs h env). h (url t) = Some (domain t))
   \<and> (\<forall>u. h u = None \<longrightarrow> u \<notin> url ` set (captureTabs h env))
   \<and> (\<forall>b u t rest. h u = None \<longrightarrow> parse_pairs h b (u # t # rest) = parse_pairs h b rest)
   \<and> (\<forall>b m. captureBrowser h b (ExecFails m) = [])"
proof -
  have 1: "\<forall>t\<in>set (captureTabs h env). h (url t) = Some (domain t)"
    by (auto simp: captureTabs_def dest!: aggregateTabs_subset collect_browserResults)
  then have 2: "\<forall>u. h u = None \<longrightarrow> u \<notin> url ` set (captureTabs h env)"
    by force
  have 3: "\<forall>b u t rest. h u = None \<longrightarrow> parse_pairs h b (u # t # rest) = parse_pairs h b rest"
    by simp
  have 4: "\<forall>b m. captureBrowser h b (ExecFails m) = []"
    by (simp add: captureBrowser_def)
  from 1 2 3 4 show ?thesis by blast
qed

text \<open>
  Witness for \<open>captureTabs_urls_parse\<close>: Chrome reports one good entry and one whose url
  does not parse, Safari times out; only the good entry is returned.
\<close>

theorem captureTabs_urls_parse_witness:
  "captureTabs toy_parser toy_tabs
     = [\<lparr>title = js ''Home'', url = js ''https://a.example/x'', domain = js ''a.example'',
         browser = Some (js ''Chrome'')\<rparr>]
   \<and> toy_parser (js ''https://a.example/x'') = Some (js ''a.example'')
   \<and> toy_parser (js ''not a url'') = None
   \<and> js ''not a url'' \<notin> url ` set (captureTabs toy_parser toy_tabs)"
  using captureTabs_urls_parse [of toy_parser toy_tabs]
  by (simp add: captureTabs_def aggregateTabs_def deduplicateTabs_def browserResults_def
      captureChromeTabs_def captureSafariTabs_def captureFirefoxTabs_def captureEdgeTabs_def
      captureBrowser_def parseAppleScriptTabOutput_def toy_tabs_def toy_parser_def js_def
      js_trim_def js_whitespace_def)

section \<open>Active window\<close>

text \<open>
  Counterexample to C9 as stated: the application query fails and the title query gives
  \<open>Inbox\<close>, and \<open>captureActiveWindow\<close> returns \<open>null\<close>, not a result with that title.
\<close>

theorem captureActiveWindow_app_failure_counterexample:
  "\<not> (\<forall>env t. getFrontmostApp (frontmostApp_query env) = None
            \<and> getWindowTitle (windowTitle_query env) = Some t
          \<longrightarrow> (\<exists>r. captureActiveWindow env = Some r \<and> aw_title r = t))"
proof
  assume "\<forall>env t. getFrontmostApp (frontmostApp_query env) = None
            \<and> getWindowTitle (windowTitle_query env) = Some t
          \<longrightarrow> (\<exists>r. captureActiveWindow env = Some r \<and> aw_title r = t)"
  then have "getFrontmostApp (frontmostApp_query queries_app_fails) = None
            \<and> getWindowTitle (windowTitle_query queries_app_fails) = Some (js ''Inbox'')
          \<longrightarrow> (\<exists>r. captureActiveWindow queries_app_fails = Some r \<and> aw_title r = js ''Inbox'')"
    by blast
  then show False
    by (simp add: queries_app_fails_def getFrontmostApp_def getWindowTitle_def
        captureActiveWindow_def js_def js_trim_def js_whitespace_def)
qed

lemma getWindowTitle_nonempty: "getWindowTitle r = Some t \<Longrightarrow> t \<noteq> []"
  by (cases r) (auto simp: getWindowTitle_def split: if_splits)

text \<open>
  C9, as the code has it. When the application query fails, \<open>captureActiveWindow\<close>
  returns \<open>null\<close> whatever the title query gave. When the application query succeeds,
  the result carries its name and bundle identifier, and a failure of the title query
  affects the title only, which is then \<open>Unknown\<close>. A command that fails makes its query
  return \<open>null\<close>, and the application query returns non-\<open>null\<close> whenever its command
  succeeds.
\<close>

theorem captureActiveWindow_fields:
  "(getFrontmostApp (frontmostApp_query env) = None \<longrightarrow> captureActiveWindow env = None)
   \<and> (\<forall>a. getFrontmostApp (frontmostApp_query env) = Some a \<longrightarrow>
         (\<exists>r. captureActiveWindow env = Some r \<and> app r = name a \<and> bundleId r = app_bundleId a
            \<and> aw_title r = (case getWindowTitle (windowTitle_query env) of
                               None \<Rightarrow> js ''Unknown''
                             | Some t \<Rightarrow> t)))
   \<and> (\<forall>m. getFrontmostApp (ExecFails m) = None \<and> getWindowTitle (ExecFails m) = None)
   \<and> (\<forall>out. getFrontmostApp (Stdout out) \<noteq> None)"
proof -
  have "js_or t (js ''Unknown'') = t" if "getWindowTitle (windowTitle_query env) = Some t" for t
    using getWindowTitle_nonempty [OF that] by (simp add: js_or_def)
  then have 2: "\<forall>a. getFrontmostApp (frontmostApp_query env) = Some a \<longrightarrow>
         (\<exists>r. captureActiveWindow env = Some r \<and> app r = name a \<and> bundleId r = app_bundleId a
            \<and> aw_title r = (case getWindowTitle (windowTitle_query env) of
                               None \<Rightarrow> js ''Unknown''
                             | Some t \<Rightarrow> t))"
    by (auto simp: captureActiveWindow_def split: option.splits)
  have 4: "\<forall>out. getFrontmostApp (Stdout out) \<noteq> None"
    by (auto simp: getFrontmostApp_def split: list.splits)
  show ?thesis using 2 4
    by (simp add: captureActiveWindow_def getFrontmostApp_def getWindowTitle_def)
qed

text \<open>
  Witness for \<open>captureActiveWindow_fields\<close>: with the title query failing the result
  keeps the application and has the title \<open>Unknown\<close>; with the application query
  failing the result is \<open>null\<close>.
\<close>

theorem captureActiveWindow_fields_witness:
  "captureActiveWindow queries_title_fails
     = Some \<lparr>app = js ''Mail'', aw_title = js ''Unknown'', bundleId = Some (js ''com.apple.mail'')\<rparr>
   \<and> captureActiveWindow queries_app_fails = None"
  using captureActiveWindow_fields [of queries_title_fails]
    captureActiveWindow_fields [of queries_app_fails]
  by (simp add: queries_app_fails_def queries_title_fails_def getFrontmostApp_def
      getWindowTitle_def captureActiveWindow_def js_def js_trim_def js_whitespace_def js_or_def)

section \<open>Delivery: the retry policy\<close>

lemma send_loop_ok:
  "attempt \<le> 3 \<Longrightarrow> net attempt = PostOk st \<Longrightarrow>
   send_loop net attempt l tr = (\<lparr>wr_success = True, wr_error = None, statusCode = Some st\<rparr>, tr @ [Post attempt])"
  by (subst send_loop.simps) (simp add: maxRetries_def)

lemma send_loop_client:
  "attempt \<le> 3 \<Longrightarrow> net attempt = PostFails msg resp \<Longrightarrow> client_error resp \<Longrightarrow>
   send_loop net attempt l tr = (client_error_response resp, tr @ [Post attempt])"
  by (subst send_loop.simps) (simp add: maxRetries_def)

lemma send_loop_retry1:
  "net 1 = PostFails msg resp \<Longrightarrow> \<not> client_error resp \<Longrightarrow>
   send_loop net 1 l tr = send_loop net 2 (Some msg) (tr @ [Post 1, Sleep 1000])"
  by (subst send_loop.simps) (simp add: maxRetries_def retryDelayMs_def numeral_2_eq_2)

lemma send_loop_retry2:
  "net 2 = PostFails msg resp \<Longrightarrow> \<not> client_error resp \<Longrightarrow>
   send_loop net 2 l tr = send_loop net 3 (Some msg) (tr @ [Post 2, Sleep 2000])"
  by (subst send_loop.simps) (simp add: maxRetries_def retryDelayMs_def)

lemma send_loop_last:
  "net 3 = PostFails msg resp \<Longrightarrow> \<not> client_error resp \<Longrightarrow>
   send_loop net 3 l tr
     = (\<lparr>wr_success = False, wr_error = Some (js_or msg (js ''Unknown error'')), statusCode = None\<rparr>, tr @ [Post 3])"
  by (subst send_loop.simps, simp add: maxRetries_def, subst send_loop.simps, simp add: maxRetries_def)

lemma send_loop_posts:
  "length (filter is_post (snd (send_loop net attempt l tr))) \<le> length (filter is_post tr) + (4 - attempt)"
proof (induction net attempt l tr rule: send_loop.induct)
  case (1 net attempt lastError tr)
  show ?case
  proof (cases "attempt \<le> maxRetries")
    case False
    then show ?thesis by (subst send_loop.simps) simp
  next
    case le: True
    show ?thesis
    proof (cases "net attempt")
      case (PostOk st)
      with le show ?thesis by (subst send_loop.simps) (simp add: maxRetries_def)
    next
      case (PostFails msg resp)
      show ?thesis
      proof (cases "client_error resp")
        case True
        with le PostFails show ?thesis by (subst send_loop.simps) (simp add: maxRetries_def)
      next
        case ce: False
        show ?thesis
        proof (cases "attempt < maxRetries")
          case True
          with 1(1) [OF le PostFails ce True] le PostFails ce show ?thesis
            by (subst send_loop.simps) (simp add: maxRetries_def)
        next
          case False
          with 1(2) [OF le PostFails ce False] le PostFails ce show ?thesis
            by (subst send_loop.simps) (simp add: maxRetries_def)
        qed
      qed
    qed
  qed
qed

lemma retryableE: "retryable r \<Longrightarrow> \<exists>msg resp. r = PostFails msg resp \<and> \<not> client_error resp"
  by (cases r) (auto simp: retryable_def)

lemma backoff_2: "backoff_trace 2 = [Post 1, Sleep 1000, Post 2]"
  by (simp add: backoff_trace_def retryDelayMs_def upt_conv_Cons)

lemma backoff_3: "backoff_trace 3 = [Post 1, Sleep 1000, Post 2, Sleep 2000, Post 3]"
  by (simp add: backoff_trace_def retryDelayMs_def upt_conv_Cons)

lemma butlast_backoff_2: "butlast (backoff_trace 2) = [Post 1, Sleep 1000]"
  by (simp add: backoff_2)

lemma butlast_backoff_3: "butlast (backoff_trace 3) = [Post 1, Sleep 1000, Post 2, Sleep 2000]"
  by (simp add: backoff_3)

lemma send_prefix:
  assumes k: "1 \<le> k" "k \<le> 3" and r: "\<forall>j. 1 \<le> j \<and> j < k \<longrightarrow> retryable (net j)"
  shows "\<exists>l. send net = send_loop net k l (butlast (backoff_trace k))"
proof -
  from k have "k = 1 \<or> k = 2 \<or> k = 3" by linarith
  then consider "k = 1" | "k = 2" | "k = 3" by blast
  then show ?thesis
  proof cases
    case 1
    then have "send net = send_loop net k None (butlast (backoff_trace k))"
      by (simp add: send_def backoff_trace_def)
    then show ?thesis by (rule exI)
  next
    case 2
    with r have "retryable (net 1)" by simp
    then obtain m1 r1 where n1: "net 1 = PostFails m1 r1" "\<not> client_error r1"
      using retryableE by blast
    have "send net = send_loop net 2 (Some m1) [Post 1, Sleep 1000]"
      unfolding send_def using send_loop_retry1 [of net m1 r1 None "[]"] n1 by simp
    then have "send net = send_loop net k (Some m1) (butlast (backoff_trace k))"
      by (simp only: 2 butlast_backoff_2)
    then show ?thesis by (rule exI)
  next
    case 3
    with r have "retryable (net 1)" by simp
    then obtain m1 r1 where n1: "net 1 = PostFails m1 r1" "\<not> client_error r1"
      using retryableE by blast
    from 3 r have "retryable (net 2)" by simp
    then obtain m2 r2 where n2: "net 2 = PostFails m2 r2" "\<not> client_error r2"
      using retryableE by blast
    have "send net = send_loop net 2 (Some m1) [Post 1, Sleep 1000]"
      unfolding send_def using send_loop_retry1 [of net m1 r1 None "[]"] n1 by simp
    also have "\<dots> = send_loop net 3 (Some m2) [Post 1, Sleep 1000, Post 2, Sleep 2000]"
      using send_loop_retry2 [of net m2 r2 "Some m1" "[Post 1, Sleep 1000]"] n2 by simp
    finally have "send net = send_loop net k (Some m2) (butlast (backoff_trace k))"
      by (simp only: 3 butlast_backoff_3)
    then show ?thesis by (rule exI)
  qed
qed

lemma butlast_backoff: "butlast (backoff_trace k) @ [Post k] = backoff_trace k"
  by (simp add: backoff_trace_def)

text \<open>
  C3, as the code has it. For every sequence of outcomes of the POSTs: \<open>send\<close> posts at
  most 3 times. When attempt \<open>k\<close> (of 1, 2, 3) is the first that is not a retryable
  failure and it is a rejection with a response status in 400..499, \<open>send\<close> returns
  failure with that status and the error \<open>Client error: <status>\<close>, and the events are
  the \<open>k\<close> POSTs with a sleep of \<open>1000 * 2^(j-1)\<close> ms after each earlier attempt \<open>j\<close>
  and nothing after the last POST. When attempt \<open>k\<close> resolves, \<open>send\<close> returns success
  with its status, after the same events. When all three attempts are retryable
  failures, \<open>send\<close> sleeps 1000 ms and 2000 ms between them and returns failure with the
  message of the last error, or with \<open>Unknown error\<close> when that message is empty.
\<close>

theorem send_retry_policy:
  "length (filter is_post (snd (send net))) \<le> 3
   \<and> (\<forall>k msg st. 1 \<le> k \<and> k \<le> 3 \<and> (\<forall>j. 1 \<le> j \<and> j < k \<longrightarrow> retryable (net j))
         \<and> net k = PostFails msg (Some st) \<and> 400 \<le> st \<and> st < 500
       \<longrightarrow> send net = (\<lparr>wr_success = False, wr_error = Some (js ''Client error: '' @ digits_of st),
                          statusCode = Some st\<rparr>, backoff_trace k))
   \<and> (\<forall>k st. 1 \<le> k \<and> k \<le> 3 \<and> (\<forall>j. 1 \<le> j \<and> j < k \<longrightarrow> retryable (net j))
         \<and> net k = PostOk st
       \<longrightarrow> send net = (\<lparr>wr_success = True, wr_error = None, statusCode = Some st\<rparr>, backoff_trace k))
   \<and> (\<forall>msg resp. retryable (net 1) \<and> retryable (net 2) \<and> net 3 = PostFails msg resp
         \<and> \<not> client_error resp
       \<longrightarrow> send net = (\<lparr>wr_success = False,
                          wr_error = Some (if msg = [] then js ''Unknown error'' else msg),
                          statusCode = None\<rparr>,
                        [Post 1, Sleep 1000, Post 2, Sleep 2000, Post 3]))"
proof -
  have a: "length (filter is_post (snd (send net))) \<le> 3"
    using send_loop_posts [of net 1 None "[]"] by (simp add: send_def)
  have b: "send net = (\<lparr>wr_success = False, wr_error = Some (js ''Client error: '' @ digits_of st),
                          statusCode = Some st\<rparr>, backoff_trace k)"
    if "1 \<le> k" "k \<le> 3" "\<forall>j. 1 \<le> j \<and> j < k \<longrightarrow> retryable (net j)"
      "net k = PostFails msg (Some st)" "400 \<le> st" "st < 500" for k msg st
  proof -
    have "client_error (Some st)" using that by (simp add: client_error_def)
    with that show ?thesis
      using send_prefix [of k net] by (auto simp: send_loop_client butlast_backoff client_error_response_def)
  qed
  have c: "send net = (\<lparr>wr_success = True, wr_error = None, statusCode = Some st\<rparr>, backoff_trace k)"
    if "1 \<le> k" "k \<le> 3" "\<forall>j. 1 \<le> j \<and> j < k \<longrightarrow> retryable (net j)" "net k = PostOk st" for k st
    using that send_prefix [of k net] by (auto simp: send_loop_ok butlast_backoff)
  have d: "send net = (\<lparr>wr_success = False,
                          wr_error = Some (if msg = [] then js ''Unknown error'' else msg),
                          statusCode = None\<rparr>,
                        [Post 1, Sleep 1000, Post 2, Sleep 2000, Post 3])"
    if "retryable (net 1)" "retryable (net 2)" "net 3 = PostFails msg resp" "\<not> client_error resp" for msg resp
  proof -
    have "\<forall>j. 1 \<le> j \<and> j < 3 \<longrightarrow> retryable (net j)"
    proof (intro allI impI)
      fix j :: nat assume "1 \<le> j \<and> j < 3"
      then have "j = 1 \<or> j = 2" by linarith
      with that show "retryable (net j)" by auto
    qed
    from send_prefix [of 3 net, OF _ _ this] that show ?thesis
      using send_loop_last [of net msg resp] backoff_3 by (auto simp: js_or_def)
  qed
  from a b c d show ?thesis by blast
qed

text \<open>
  Counterexample to C3 as stated: three network failures whose error message is empty.
  \<open>send\<close> returns the error \<open>Unknown error\<close>, not the (empty) message of the last error.
\<close>

theorem send_last_message_counterexample:
  "\<not> (\<forall>net msg resp.
         retryable (net 1) \<and> retryable (net 2) \<and> net 3 = PostFails msg resp \<and> \<not> client_error resp
         \<longrightarrow> fst (send net) = \<lparr>wr_success = False, wr_error = Some msg, statusCode = None\<rparr>)"
proof
  assume "\<forall>net msg resp.
         retryable (net 1) \<and> retryable (net 2) \<and> net 3 = PostFails msg resp \<and> \<not> client_error resp
         \<longrightarrow> fst (send net) = \<lparr>wr_success = False, wr_error = Some msg, statusCode = None\<rparr>"
  then have "retryable (nameless_failure 1) \<and> retryable (nameless_failure 2)
         \<and> nameless_failure 3 = PostFails [] None \<and> \<not> client_error None
         \<longrightarrow> fst (send nameless_failure)
               = \<lparr>wr_success = False, wr_error = Some [], statusCode = None\<rparr>"
    by blast
  moreover have "send nameless_failure
      = (\<lparr>wr_success = False, wr_error = Some (js ''Unknown error''), statusCode = None\<rparr>,
         [Post 1, Sleep 1000, Post 2, Sleep 2000, Post 3])"
    using send_loop_retry1 [of nameless_failure "[]" None None "[]"]
      send_loop_retry2 [of nameless_failure "[]" None "Some []" "[Post 1, Sleep 1000]"]
      send_loop_last [of nameless_failure "[]" None "Some []"
        "[Post 1, Sleep 1000, Post 2, Sleep 2000]"]
    by (simp add: send_def nameless_failure_def client_error_def retryDelayMs_def js_or_def)
  ultimately show False
    by (simp add: nameless_failure_def retryable_def client_error_def js_def)
qed

text \<open>
  Witness for \<open>send_retry_policy\<close>: three answers 500 give three POSTs with sleeps of
  1000 and 2000 ms and the failure carries the last message; one answer 404 gives one
  POST and the failure carries the status.
\<close>

theorem send_retry_policy_witness:
  "send always_500
     = (\<lparr>wr_success = False, wr_error = Some (js ''Request failed with status code 500''),
         statusCode = None\<rparr>,
        [Post 1, Sleep 1000, Post 2, Sleep 2000, Post 3])
   \<and> send not_found_404
       = (\<lparr>wr_success = False, wr_error = Some (js ''Client error: 404''), statusCode = Some 404\<rparr>,
          [Post 1])
   \<and> length (filter is_post (snd (send always_500))) \<le> 3"
  using send_retry_policy [of always_500] send_retry_policy [of not_found_404]
  apply (simp add: always_500_def not_found_404_def retryable_def client_error_def
      backoff_trace_def js_def)
  apply (elim conjE)
  apply (drule_tac x=1 in spec)
  apply (simp add: digits_of.simps)
  done

section \<open>captureContext: hooks, blob and index\<close>

lemma shot_events_hide:
  "hideWindow env = Some h \<Longrightarrow>
   shot_events (try_screenshot w env) = HideWindow # (case h of Returns \<Rightarrow> [Settle 100, ScreenGrab] | Throws m \<Rightarrow> [])"
  by (cases h; cases "grab env") (simp_all add: try_screenshot_def Let_def)

lemma shot_events_nohide:
  "hideWindow env = None \<Longrightarrow> shot_events (try_screenshot w env) = [Settle 100, ScreenGrab]"
  by (cases "grab env") (simp_all add: try_screenshot_def Let_def)

lemma finally_show_events:
  "fst (finally_show env) = (case showWindow env of None \<Rightarrow> [] | Some s \<Rightarrow> [ShowWindow])"
  by (simp add: finally_show_def split: option.splits hook.splits)

lemma capture_events:
  "\<exists>rest. events (captureContext w how env)
            = shot_events (try_screenshot w env) @ fst (finally_show env) @ rest
          \<and> set rest \<subseteq> {WriteBlob, InsertIndexRow, StartDelivery}"
proof (cases "finally_show env")
  case (Pair show_evs thrown)
  show ?thesis
  proof (cases thrown)
    case (Some m)
    with Pair show ?thesis by (simp add: captureContext_def Let_def capture_failed_def)
  next
    case None
    note nt = this
    show ?thesis
    proof (cases "writeFile env")
      case (Some m)
      with Pair nt show ?thesis by (simp add: captureContext_def Let_def capture_failed_def)
    next
      case None
      with Pair nt show ?thesis
        by (simp add: captureContext_def Let_def capture_failed_def split: sum.splits)
    qed
  qed
qed

text \<open>
  C8. For every call of \<open>captureContext\<close> that supplies both hooks, whatever the grab
  does: the events start with the hide hook; then, when the hide hook returned, the
  settle wait and the screen grab; then the show hook; and what follows are only the
  blob write, the index insert and the start of the delivery. So the hide hook comes
  before the grab and the show hook after it, also when the grab throws. In every call,
  with or without hooks, each hook is invoked at most once and there is at most one
  grab.
\<close>

theorem capture_hooks_order:
  "(\<forall>h s. hideWindow env = Some h \<and> showWindow env = Some s \<longrightarrow>
      (\<exists>rest. events (captureContext w how env)
                 = HideWindow # (case h of Returns \<Rightarrow> [Settle 100, ScreenGrab] | Throws m \<Rightarrow> [])
                   @ ShowWindow # rest
               \<and> set rest \<subseteq> {WriteBlob, InsertIndexRow, StartDelivery}))
   \<and> count_list (events (captureContext w how env)) HideWindow \<le> 1
   \<and> count_list (events (captureContext w how env)) ShowWindow \<le> 1
   \<and> count_list (events (captureContext w how env)) ScreenGrab \<le> 1"
proof -
  obtain rest where ev: "events (captureContext w how env)
            = shot_events (try_screenshot w env) @ fst (finally_show env) @ rest"
    and rest: "set rest \<subseteq> {WriteBlob, InsertIndexRow, StartDelivery}"
    using capture_events by blast
  have c: "count_list rest HideWindow = 0" "count_list rest ShowWindow = 0" "count_list rest ScreenGrab = 0"
    using rest by (auto simp: count_list_0_iff)
  have 1: "\<forall>h s. hideWindow env = Some h \<and> showWindow env = Some s \<longrightarrow>
      (\<exists>rest. events (captureContext w how env)
                 = HideWindow # (case h of Returns \<Rightarrow> [Settle 100, ScreenGrab] | Throws m \<Rightarrow> [])
                   @ ShowWindow # rest
               \<and> set rest \<subseteq> {WriteBlob, InsertIndexRow, StartDelivery})"
    using ev rest by (auto simp: shot_events_hide finally_show_events)
  have 2: "count_list (events (captureContext w how env)) HideWindow \<le> 1"
    using c by (cases "hideWindow env")
      (auto simp: ev shot_events_hide shot_events_nohide finally_show_events split: option.splits hook.splits)
  have 3: "count_list (events (captureContext w how env)) ShowWindow \<le> 1"
    using c by (cases "hideWindow env")
      (auto simp: ev shot_events_hide shot_events_nohide finally_show_events split: option.splits hook.splits)
  have 4: "count_list (events (captureContext w how env)) ScreenGrab \<le> 1"
    using c by (cases "hideWindow env")
      (auto simp: ev shot_events_hide shot_events_nohide finally_show_events split: option.splits hook.splits)
  from 1 2 3 4 show ?thesis by blast
qed

text \<open>
  Witness for \<open>capture_hooks_order\<close>: both hooks return and the grab throws; the show
  hook still follows the grab.
\<close>

theorem capture_hooks_order_witness:
  "hideWindow base_env = Some Returns \<and> showWindow base_env = Some Returns
   \<and> grab base_env = GrabFails (js ''no display'')
   \<and> events (captureContext empty_world Manual base_env)
       = [HideWindow, Settle 100, ScreenGrab, ShowWindow, WriteBlob, InsertIndexRow, StartDelivery]
   \<and> count_list (events (captureContext empty_world Manual base_env)) HideWindow \<le> 1"
  using capture_hooks_order [of base_env empty_world Manual]
  by (simp add: captureContext_def Let_def capture_failed_def try_screenshot_def finally_show_def
      base_env_def empty_world_def insertCapture_def)

lemma json_png_differ: "json_file w i \<noteq> png_file w' j"
proof
  assume "json_file w i = png_file w' j"
  then have "last (json_file w i) = last (png_file w' j)" by simp
  then show False by (simp add: json_file_def png_file_def path_join_def js_def)
qed

lemma json_file_after [simp]:
  "json_file (w\<lparr>files := f\<rparr>) i = json_file w i"
  "json_file (w\<lparr>latestCapture := l\<rparr>) i = json_file w i"
  "json_file (w\<lparr>captures := t\<rparr>) i = json_file w i"
  by (simp_all add: json_file_def)

lemma shot_files_json:
  "shot_files (try_screenshot w env) (json_file w i) = files w (json_file w i)"
  by (cases "hideWindow env"; cases "grab env")
     (auto simp: try_screenshot_def Let_def json_png_differ split: hook.splits)

lemma show_ok_finally:
  "(\<forall>m. showWindow env \<noteq> Some (Throws m)) \<Longrightarrow> snd (finally_show env) = None"
  by (auto simp: finally_show_def split: option.splits hook.splits)

lemma capture_show_throws:
  assumes "showWindow env = Some (Throws m)"
  shows "returned (captureContext w how env) = \<lparr>success = False, captureId = None, error = Some m\<rparr>"
    and "files (after (captureContext w how env)) = shot_files (try_screenshot w env)"
    and "captures (after (captureContext w how env)) = captures w"
    and "latestCapture (after (captureContext w how env)) = latestCapture w"
    and "started_delivery (captureContext w how env) = None"
  using assms by (simp_all add: captureContext_def Let_def finally_show_def capture_failed_def)

lemma capture_write_fails:
  assumes "\<forall>m. showWindow env \<noteq> Some (Throws m)" "writeFile env = Some e"
  shows "returned (captureContext w how env) = \<lparr>success = False, captureId = None, error = Some e\<rparr>"
    and "files (after (captureContext w how env)) = shot_files (try_screenshot w env)"
    and "captures (after (captureContext w how env)) = captures w"
    and "latestCapture (after (captureContext w how env))
           = Some (build_context how env (shot_base64 (try_screenshot w env)))"
    and "started_delivery (captureContext w how env) = None"
    and "InsertIndexRow \<notin> set (events (captureContext w how env))"
  using assms show_ok_finally [of env]
  by (cases "finally_show env"; cases "hideWindow env"; cases "grab env";
      auto simp: captureContext_def Let_def capture_failed_def try_screenshot_def finally_show_def
           split: option.splits hook.splits)+

lemma capture_insert_fails:
  assumes "\<forall>m. showWindow env \<noteq> Some (Throws m)" "writeFile env = None"
    and "c = build_context how env (shot_base64 (try_screenshot w env))"
    and "insertCapture (faults env) (captures w) (insert_data w c (shot_path (try_screenshot w env))) = Inl e"
  shows "returned (captureContext w how env) = \<lparr>success = False, captureId = None, error = Some e\<rparr>"
    and "files (after (captureContext w how env))
           = (shot_files (try_screenshot w env))(json_file w (uuid env) \<mapsto> JsonDoc c)"
    and "captures (after (captureContext w how env)) = captures w"
    and "latestCapture (after (captureContext w how env)) = Some c"
    and "started_delivery (captureContext w how env) = None"
  using assms show_ok_finally [of env]
  by (cases "finally_show env"; simp add: captureContext_def Let_def capture_failed_def)+

lemma capture_succeeds:
  assumes "\<forall>m. showWindow env \<noteq> Some (Throws m)" "writeFile env = None"
    and "c = build_context how env (shot_base64 (try_screenshot w env))"
    and "insertCapture (faults env) (captures w) (insert_data w c (shot_path (try_screenshot w env))) = Inr tbl"
  shows "returned (captureContext w how env) = \<lparr>success = True, captureId = Some (uuid env), error = None\<rparr>"
    and "files (after (captureContext w how env))
           = (shot_files (try_screenshot w env))(json_file w (uuid env) \<mapsto> JsonDoc c)"
    and "captures (after (captureContext w how env)) = tbl"
    and "latestCapture (after (captureContext w how env)) = Some c"
    and "started_delivery (captureContext w how env) = Some (uuid env, c)"
  using assms show_ok_finally [of env]
  by (cases "finally_show env"; simp add: captureContext_def Let_def capture_failed_def)+

lemma capture_dirs [simp]:
  "capturesDir (after (captureContext w how env)) = capturesDir w"
  "screenshotsDir (after (captureContext w how env)) = screenshotsDir w"
  by (cases "finally_show env"; simp add: captureContext_def Let_def capture_failed_def
      split: option.splits sum.splits)+

lemma insertCapture_Inr:
  "insertCapture F tbl d = Inr tbl' \<longleftrightarrow>
     (F (InsertRow (ins_id d)) = None \<and> ins_id d \<notin> set (map row_id tbl) \<and> tbl' = tbl @ [new_row d])"
  by (auto simp: insertCapture_def split: option.splits)

lemma ctx_id_build [simp]: "ctx_id (build_context how env b) = uuid env"
  by (simp add: build_context_def Let_def)

lemma row_id_index_row [simp]: "row_id (index_row w how env) = uuid env"
  by (simp add: index_row_def new_row_def insert_data_def assembled_def)

lemma insert_cases:
  "insertCapture (faults env) (captures w)
       (insert_data w (assembled w how env) (shot_path (try_screenshot w env)))
     = (case faults env (InsertRow (uuid env)) of
          Some m \<Rightarrow> Inl m
        | None \<Rightarrow> if uuid env \<in> set (map row_id (captures w))
                  then Inl (js ''UNIQUE constraint failed: captures.id'')
                  else Inr (captures w @ [index_row w how env]))"
  by (simp add: insertCapture_def index_row_def insert_data_def assembled_def split: option.splits)

lemma loadCapture_after:
  "files (after (captureContext w how env)) (json_file w i) = Some (JsonDoc c) \<Longrightarrow>
   loadCapture (after (captureContext w how env)) i = Some c"
  by (simp add: loadCapture_def json_file_def)

lemma shot_events_no_insert: "InsertIndexRow \<notin> set (shot_events (try_screenshot w env))"
  by (cases "hideWindow env"; cases "grab env")
     (auto simp: try_screenshot_def Let_def split: hook.splits)



text \<open>
  C1, as the code has it. A call returns success exactly when the show hook does not
  throw, the blob write does not reject and the insert runs (the statement does not
  throw and the id is not in the index yet). On success the call returns the id;
  afterwards the blob of the id holds the assembled context and loads, the index is the
  old index with the new row, which is its only row of that id and has \<open>webhook_sent\<close>
  0; the latest-capture slot holds the context; and a delivery for it was started. On
  failure the call returns an error and no id, the index is unchanged, and no delivery
  was started. When the blob write rejects, the call fails, the blob of the id is as it
  was before, and the index insert is never attempted.
\<close>

theorem capture_outcome_cases:
  "(success (returned (captureContext w how env)) \<longleftrightarrow>
      (\<forall>m. showWindow env \<noteq> Some (Throws m)) \<and> writeFile env = None
      \<and> faults env (InsertRow (uuid env)) = None \<and> uuid env \<notin> set (map row_id (captures w)))
   \<and> (success (returned (captureContext w how env)) \<longrightarrow>
         captureId (returned (captureContext w how env)) = Some (uuid env)
         \<and> error (returned (captureContext w how env)) = None
         \<and> files (after (captureContext w how env)) (json_file w (uuid env))
             = Some (JsonDoc (assembled w how env))
         \<and> loadCapture (after (captureContext w how env)) (uuid env) = Some (assembled w how env)
         \<and> captures (after (captureContext w how env)) = captures w @ [index_row w how env]
         \<and> filter (\<lambda>r. row_id r = uuid env) (captures (after (captureContext w how env)))
             = [index_row w how env]
         \<and> webhook_sent (index_row w how env) = 0
         \<and> latestCapture (after (captureContext w how env)) = Some (assembled w how env)
         \<and> started_delivery (captureContext w how env) = Some (uuid env, assembled w how env))
   \<and> (\<not> success (returned (captureContext w how env)) \<longrightarrow>
         captureId (returned (captureContext w how env)) = None
         \<and> error (returned (captureContext w how env)) \<noteq> None
         \<and> captures (after (captureContext w how env)) = captures w
         \<and> started_delivery (captureContext w how env) = None)
   \<and> (writeFile env \<noteq> None \<longrightarrow>
         \<not> success (returned (captureContext w how env))
         \<and> files (after (captureContext w how env)) (json_file w (uuid env))
             = files w (json_file w (uuid env))
         \<and> InsertIndexRow \<notin> set (events (captureContext w how env)))"
proof (cases "\<forall>m. showWindow env \<noteq> Some (Throws m)")
  case False
  then obtain m where m: "showWindow env = Some (Throws m)" by blast
  show ?thesis
    using capture_show_throws [OF m, of w how] m
    by (auto simp: shot_files_json shot_events_no_insert
        captureContext_def Let_def finally_show_def capture_failed_def)
next
  case sh: True
  show ?thesis
  proof (cases "writeFile env")
    case (Some e)
    show ?thesis
      using capture_write_fails [OF sh Some, of w how] Some sh
      by (simp add: shot_files_json)
  next
    case wf: None
    let ?c = "assembled w how env"
    have c: "?c = build_context how env (shot_base64 (try_screenshot w env))"
      by (simp add: assembled_def)
    show ?thesis
    proof (cases "insertCapture (faults env) (captures w) (insert_data w ?c (shot_path (try_screenshot w env)))")
      case (Inl e)
      have ns: "\<not> (faults env (InsertRow (uuid env)) = None \<and> uuid env \<notin> set (map row_id (captures w)))"
        using Inl by (auto simp: insert_cases split: option.splits if_splits)
      show ?thesis
        using capture_insert_fails [OF sh wf c Inl] ns wf by auto
    next
      case (Inr tbl)
      have ok: "faults env (InsertRow (uuid env)) = None" "uuid env \<notin> set (map row_id (captures w))"
        "tbl = captures w @ [index_row w how env]"
        using Inr by (auto simp: insert_cases split: option.splits if_splits)
      have f: "filter (\<lambda>r. row_id r = uuid env) (captures w @ [index_row w how env]) = [index_row w how env]"
        using ok(2) by (force simp: filter_empty_conv)
      have l: "loadCapture (after (captureContext w how env)) (uuid env) = Some ?c"
        by (rule loadCapture_after) (simp add: capture_succeeds(2) [OF sh wf c Inr])
      have ws: "webhook_sent (index_row w how env) = 0"
        by (simp add: index_row_def new_row_def)
      show ?thesis
        using capture_succeeds [OF sh wf c Inr] ok f l ws sh wf by simp
    qed
  qed
qed

lemma index_fails_outcome:
  "\<not> success (returned (captureContext empty_world Manual index_fails_env))"
  "files (after (captureContext empty_world Manual index_fails_env))
      (json_file empty_world (js ''c1''))
     = Some (JsonDoc (assembled empty_world Manual index_fails_env))"
  "captures (after (captureContext empty_world Manual index_fails_env)) = []"
proof -
  have sh: "\<forall>m. showWindow index_fails_env \<noteq> Some (Throws m)"
    and wf: "writeFile index_fails_env = None"
    by (simp_all add: index_fails_env_def base_env_def)
  have c: "assembled empty_world Manual index_fails_env
      = build_context Manual index_fails_env (shot_base64 (try_screenshot empty_world index_fails_env))"
    by (simp add: assembled_def)
  have ins: "insertCapture (faults index_fails_env) (captures empty_world)
       (insert_data empty_world (assembled empty_world Manual index_fails_env)
          (shot_path (try_screenshot empty_world index_fails_env)))
     = Inl (js ''database is locked'')"
    by (simp add: insertCapture_def index_fails_env_def base_env_def)
  have u: "uuid index_fails_env = js ''c1''"
    by (simp add: index_fails_env_def base_env_def)
  show "\<not> success (returned (captureContext empty_world Manual index_fails_env))"
    by (simp add: capture_insert_fails(1) [OF sh wf c ins])
  show "files (after (captureContext empty_world Manual index_fails_env))
      (json_file empty_world (js ''c1''))
     = Some (JsonDoc (assembled empty_world Manual index_fails_env))"
    by (simp add: capture_insert_fails(2) [OF sh wf c ins] u)
  show "captures (after (captureContext empty_world Manual index_fails_env)) = []"
    using capture_insert_fails(3) [OF sh wf c ins] by (simp add: empty_world_def)
qed

lemma blob_fails_outcome:
  "\<not> success (returned (captureContext empty_world Manual blob_fails_env))"
  "latestCapture (after (captureContext empty_world Manual blob_fails_env))
     = Some (assembled empty_world Manual blob_fails_env)"
proof -
  have sh: "\<forall>m. showWindow blob_fails_env \<noteq> Some (Throws m)"
    and wf: "writeFile blob_fails_env = Some (js ''ENOSPC: no space left on device'')"
    by (simp_all add: blob_fails_env_def base_env_def)
  show "\<not> success (returned (captureContext empty_world Manual blob_fails_env))"
    by (simp add: capture_write_fails(1) [OF sh wf])
  show "latestCapture (after (captureContext empty_world Manual blob_fails_env))
     = Some (assembled empty_world Manual blob_fails_env)"
    by (simp add: capture_write_fails(4) [OF sh wf] assembled_def)
qed

text \<open>
  Counterexample to C1 as stated, on the empty store with a fresh id. When the index
  insert throws, the call returns failure and the blob it wrote stays: one of the two
  exists. When the blob write rejects, the call returns failure and neither exists, but
  the latest-capture slot has been replaced: the state is not as before.
\<close>

theorem capture_not_all_or_nothing_counterexample:
  "capture_is_fresh empty_world index_fails_env
   \<and> \<not> all_or_nothing empty_world Manual index_fails_env
   \<and> capture_is_fresh empty_world blob_fails_env
   \<and> \<not> all_or_nothing empty_world Manual blob_fails_env"
proof -
  have 1: "capture_is_fresh empty_world index_fails_env" "capture_is_fresh empty_world blob_fails_env"
    by (simp_all add: capture_is_fresh_def empty_world_def)
  have u: "uuid index_fails_env = js ''c1''"
    by (simp add: index_fails_env_def base_env_def)
  have 2: "\<not> all_or_nothing empty_world Manual index_fails_env"
    using index_fails_outcome
    by (simp add: all_or_nothing_def Let_def blob_exists_def u json_file_def)
  have "latestCapture (after (captureContext empty_world Manual blob_fails_env))
          \<noteq> latestCapture empty_world"
    by (simp add: blob_fails_outcome(2)) (simp add: empty_world_def)
  then have "after (captureContext empty_world Manual blob_fails_env) \<noteq> empty_world"
    by auto
  then have 3: "\<not> all_or_nothing empty_world Manual blob_fails_env"
    using blob_fails_outcome(1) by (simp add: all_or_nothing_def Let_def)
  from 1 2 3 show ?thesis by simp
qed

text \<open>
  Witness for \<open>capture_outcome_cases\<close>: on the empty store the call succeeds, its blob
  loads and the index holds its row; with a blob write that rejects the call fails, the
  index stays empty and there is no blob.
\<close>

theorem capture_outcome_cases_witness:
  "returned (captureContext empty_world Manual base_env)
     = \<lparr>success = True, captureId = Some (js ''c1''), error = None\<rparr>
   \<and> loadCapture (after (captureContext empty_world Manual base_env)) (js ''c1'')
       = Some (assembled empty_world Manual base_env)
   \<and> captures (after (captureContext empty_world Manual base_env))
       = [index_row empty_world Manual base_env]
   \<and> \<not> success (returned (captureContext empty_world Manual blob_fails_env))
   \<and> captures (after (captureContext empty_world Manual blob_fails_env)) = []
   \<and> loadCapture (after (captureContext empty_world Manual blob_fails_env)) (js ''c1'') = None"
proof -
  have b: "showWindow base_env = Some Returns" "writeFile base_env = None"
    "faults base_env (InsertRow (uuid base_env)) = None" "uuid base_env = js ''c1''"
    "captures empty_world = []"
    by (simp_all add: base_env_def empty_world_def)
  have f: "showWindow blob_fails_env = Some Returns" "writeFile blob_fails_env \<noteq> None"
    "uuid blob_fails_env = js ''c1''" "files empty_world (json_file empty_world (js ''c1'')) = None"
    by (simp_all add: blob_fails_env_def base_env_def empty_world_def)
  have s: "success (returned (captureContext empty_world Manual base_env))"
    using capture_outcome_cases [of empty_world Manual base_env] b by simp
  have r: "returned (captureContext empty_world Manual base_env)
     = \<lparr>success = True, captureId = Some (js ''c1''), error = None\<rparr>"
    using capture_outcome_cases [of empty_world Manual base_env] s b
    by (cases "returned (captureContext empty_world Manual base_env)") auto
  have l: "loadCapture (after (captureContext empty_world Manual blob_fails_env)) (js ''c1'') = None"
    using capture_outcome_cases [of empty_world Manual blob_fails_env] f
    by (simp add: loadCapture_def json_file_def)
  show ?thesis
    using capture_outcome_cases [of empty_world Manual base_env]
      capture_outcome_cases [of empty_world Manual blob_fails_env] s r l b f
    by simp
qed

section \<open>Delivery status in the index\<close>







lemma sent_flag_None_iff: "sent_flag w j = None \<longleftrightarrow> j \<notin> set (map row_id (captures w))"
  by (auto simp: sent_flag_def find_None_iff)







lemma loadCapture_sendToWebhook [simp]:
  "loadCapture (snd (sendToWebhook w i c env)) k = loadCapture w k"
  by (simp add: sendToWebhook_def Let_def loadCapture_def json_file_def split: sum.splits)





section \<open>Retrying a delivery\<close>




lemma retryWebhook_files [simp]: "files (snd (retryWebhook w i env)) = files w"
  by (simp add: retryWebhook_def sendToWebhook_def Let_def split: option.splits sum.splits prod.splits)




section \<open>Retention cleanup\<close>






lemma deleteCapture_dirs [simp]:
  "capturesDir (snd (deleteCapture w i F)) = capturesDir w"
  by (simp add: deleteCapture_def Let_def split: sum.splits)



lemma cleanup_loop_dirs [simp]:
  "capturesDir (fst (cleanup_loop F cutoff cs w n)) = capturesDir w"
  by (induction cs arbitrary: w n) auto













end
